theory Spec2Isabelle
  imports Main "HOL-Library.Sublist"
begin

section \<open>Python values and string operations used by telegram_backup.py\<close>

text \<open>
  Strings are byte strings (\<open>char list\<close>). An attribute that an object may or may not
  carry (the source probes it with \<open>hasattr\<close> or \<open>getattr\<close> with a default) is an
  \<open>'a attr\<close>; a Python value that is either \<open>None\<close> or a string is a \<open>string option\<close>.
\<close>

datatype 'a attr = Absent | Present 'a

text \<open>\<open>getattr(obj, name, default)\<close>\<close>

fun getattr :: "'a attr \<Rightarrow> 'a \<Rightarrow> 'a" where
  "getattr Absent dflt = dflt"
| "getattr (Present v) dflt = v"

text \<open>\<open>s.startswith(p)\<close> and \<open>sub in s\<close> on strings\<close>

definition startswith :: "string \<Rightarrow> string \<Rightarrow> bool" where
  "startswith s p = prefix p s"

definition str_contains :: "string \<Rightarrow> string \<Rightarrow> bool" where
  "str_contains sub s = sublist sub s"

text \<open>
  \<open>s.lower()\<close>: the letters A to Z are mapped to a to z, every other byte is kept.
  (Python also maps letters outside ASCII, but none of them to the ASCII letters of the
  strings that a lowercased value is compared with here.)
\<close>

definition lower_char :: "char \<Rightarrow> char" where
  "lower_char c =
     (case map_of (zip ''ABCDEFGHIJKLMNOPQRSTUVWXYZ'' ''abcdefghijklmnopqrstuvwxyz'') c of
        Some l \<Rightarrow> l
      | None \<Rightarrow> c)"

definition lower :: "string \<Rightarrow> string" where
  "lower s = map lower_char s"

text \<open>\<open>str(n)\<close> for an integer, and the format specification \<open>{n:,}\<close>\<close>

definition digit_char :: "nat \<Rightarrow> char" where
  "digit_char d = ''0123456789'' ! d"

fun str_nat :: "nat \<Rightarrow> string" where
  "str_nat n =
     (if n < 10 then [digit_char n] else str_nat (n div 10) @ [digit_char (n mod 10)])"

declare str_nat.simps [simp del]

definition str_int :: "int \<Rightarrow> string" where
  "str_int i = (if i < 0 then ''-'' @ str_nat (nat (- i)) else str_nat (nat i))"

fun group3 :: "string \<Rightarrow> string" where
  "group3 (a # b # c # d # rest) = a # b # c # CHR '','' # group3 (d # rest)"
| "group3 ds = ds"

definition format_comma :: "int \<Rightarrow> string" where
  "format_comma i =
     (if i < 0 then ''-'' else '''') @ rev (group3 (rev (str_nat (nat \<bar>i\<bar>))))"

text \<open>How an f-string renders a value that is \<open>None\<close> or a string\<close>

fun py_str :: "string option \<Rightarrow> string" where
  "py_str None = ''None''"
| "py_str (Some s) = s"

section \<open>Messages and media payloads\<close>

text \<open>
  Modelled from the spec: the classes of messages, senders and media payloads belong to
  the platform library, which is not part of the repository. The types below carry the
  attributes that the source reads, with the shape the data model of the specification
  gives them: a discriminant for photo and document payloads, a mime type when present,
  a list of type-hint attributes, a size hint and an optional suggested file name.

  A document attribute is seen by the source through the name of its class
  (\<open>type(attr).__name__\<close>) and through its \<open>file_name\<close>, when it has one.
\<close>

record document_attribute =
  type_name :: string
  file_name :: "string attr"

text \<open>
  A document: \<open>mime_type\<close> and \<open>size\<close> are probed with \<open>hasattr\<close>, \<open>attributes\<close> is read
  as it is. An empty \<open>mime_type\<close> string stands for every falsy value of the field.
\<close>

record document =
  mime_type :: "string attr"
  attributes :: "document_attribute list"
  doc_size :: "int attr"

text \<open>
  A photo: \<open>sizes\<close> is probed with \<open>hasattr\<close>, and so is the \<open>size\<close> of each of its
  resolution variants; a variant is represented by that \<open>size\<close> attribute.
\<close>

datatype photo = Photo (sizes: "int attr list attr")

datatype message_media =
    MessageMediaPhoto photo
  | MessageMediaDocument document
  | MessageMediaOther

record sender =
  username :: "string option attr"
  first_name :: "string option attr"

text \<open>
  A \<open>datetime\<close> is represented by the text that \<open>strftime('%Y-%m-%d %H:%M:%S')\<close> yields
  for it.
\<close>

datatype datetime = Datetime string

fun strftime :: "datetime \<Rightarrow> string" where
  "strftime (Datetime s) = s"

text \<open>
  A message. \<open>message_text\<close> is the attribute \<open>message.message\<close>, the empty string
  standing for every falsy value; \<open>message_id\<close> is \<open>message.id\<close>.
\<close>

record message =
  message_id :: int
  date :: "datetime option"
  sender :: "sender option"
  message_text :: string
  media :: "message_media option"

section \<open>Media classifier\<close>

text \<open>The loop over \<open>doc.attributes\<close> in \<open>get_media_type\<close>; \<open>None\<close> when it falls through.\<close>

fun check_attributes :: "document_attribute list \<Rightarrow> string option" where
  "check_attributes [] = None"
| "check_attributes (a # rest) =
     (let attr_type = type_name a in
      if str_contains ''Audio'' attr_type \<or> str_contains ''Voice'' attr_type then Some ''audio''
      else if str_contains ''Video'' attr_type then Some ''video''
      else if str_contains ''Photo'' attr_type then Some ''image''
      else check_attributes rest)"

text \<open>The mime-type test of \<open>get_media_type\<close>; \<open>None\<close> when it falls through.\<close>

definition check_mime :: "document \<Rightarrow> string option" where
  "check_mime doc =
     (case mime_type doc of
        Absent \<Rightarrow> None
      | Present m \<Rightarrow>
          if m = [] then None
          else let mime = lower m in
            if startswith mime ''image/'' then Some ''image''
            else if startswith mime ''audio/'' then Some ''audio''
            else if startswith mime ''video/'' then Some ''video''
            else None)"

definition get_media_type :: "message \<Rightarrow> string option" where
  "get_media_type msg =
     (case media msg of
        None \<Rightarrow> None
      | Some (MessageMediaPhoto p) \<Rightarrow> Some ''image''
      | Some (MessageMediaDocument doc) \<Rightarrow>
          (case check_mime doc of
             Some t \<Rightarrow> Some t
           | None \<Rightarrow>
               (case check_attributes (attributes doc) of
                  Some t \<Rightarrow> Some t
                | None \<Rightarrow> Some ''other''))
      | Some MessageMediaOther \<Rightarrow> Some ''other'')"

definition get_media_size :: "message \<Rightarrow> int" where
  "get_media_size msg =
     (case media msg of
        None \<Rightarrow> 0
      | Some (MessageMediaDocument doc) \<Rightarrow>
          (case doc_size doc of Present n \<Rightarrow> n | Absent \<Rightarrow> 0)
      | Some (MessageMediaPhoto p) \<Rightarrow>
          (case sizes p of
             Absent \<Rightarrow> 0
           | Present ss \<Rightarrow>
               (case concat (map (\<lambda>s. case s of Present n \<Rightarrow> [n] | Absent \<Rightarrow> []) ss) of
                  [] \<Rightarrow> 0
                | n # ns \<Rightarrow> fold max ns n))
      | Some MessageMediaOther \<Rightarrow> 0)"

section \<open>Filter decision\<close>

text \<open>
  The block ``Apply filters'' of \<open>download_chat\<close>: the pair \<open>(should_download,
  skip_reason)\<close> it leaves behind. \<open>media_max_size\<close> is \<open>None\<close> or an integer, and is
  tested for truth before the comparison.
\<close>

definition apply_filters :: "string \<Rightarrow> int option \<Rightarrow> string option \<Rightarrow> int \<Rightarrow> bool \<times> string option" where
  "apply_filters media_filter media_max_size media_type media_size =
     (let (should_download, skip_reason) = (True, None);
          (should_download, skip_reason) =
            (if media_filter \<noteq> ''all'' \<and> media_type \<noteq> Some media_filter
             then (False, Some (''filtered ('' @ py_str media_type @ '')''))
             else (should_download, skip_reason));
          (should_download, skip_reason) =
            (if should_download \<and>
                (case media_max_size of None \<Rightarrow> False | Some mx \<Rightarrow> mx \<noteq> 0 \<and> media_size > mx)
             then (False, Some (''too large ('' @ format_comma media_size @ '' bytes)''))
             else (should_download, skip_reason))
      in (should_download, skip_reason))"

section \<open>File names\<close>

text \<open>\<open>os.path.join\<close> of two components and \<open>os.path.splitext\<close>, as posixpath has them\<close>

definition os_path_join :: "string \<Rightarrow> string \<Rightarrow> string" where
  "os_path_join a b =
     (if startswith b ''/'' then b
      else if a = [] \<or> last a = CHR ''/'' then a @ b
      else a @ ''/'' @ b)"

definition rfind :: "string \<Rightarrow> char \<Rightarrow> int" where
  "rfind p c =
     (if c \<in> set p then int (length p) - 1 - int (length (takeWhile (\<lambda>x. x \<noteq> c) (rev p)))
      else - 1)"

definition os_path_splitext :: "string \<Rightarrow> string \<times> string" where
  "os_path_splitext p =
     (let sepIndex = rfind p (CHR ''/'');
          dotIndex = rfind p (CHR ''.'')
      in if dotIndex > sepIndex \<and>
            list_ex (\<lambda>filenameIndex. p ! filenameIndex \<noteq> CHR ''.'')
              [nat (sepIndex + 1) ..< nat dotIndex]
         then (take (nat dotIndex) p, drop (nat dotIndex) p)
         else (p, []))"

text \<open>The loop over the document's attributes that looks for an original file name\<close>

fun original_filename :: "int \<Rightarrow> string \<Rightarrow> document_attribute list \<Rightarrow> string" where
  "original_filename ident media_filename [] = media_filename"
| "original_filename ident media_filename (a # rest) =
     (case file_name a of
        Present fn \<Rightarrow> ''msg_'' @ str_int ident @ snd (os_path_splitext fn)
      | Absent \<Rightarrow> original_filename ident media_filename rest)"

definition media_filename_of :: "message \<Rightarrow> string" where
  "media_filename_of msg =
     (let media_filename = ''msg_'' @ str_int (message_id msg) in
      case media msg of
        Some (MessageMediaPhoto p) \<Rightarrow> media_filename @ ''.jpg''
      | Some (MessageMediaDocument doc) \<Rightarrow>
          original_filename (message_id msg) media_filename (attributes doc)
      | _ \<Rightarrow> media_filename)"

section \<open>The platform client, the configuration and the state of a run\<close>

text \<open>
  The client is the external collaborator. \<open>get_entity\<close> yields \<open>None\<close> when the lookup
  raises; \<open>iter_messages\<close> is the message stream of a chat, a finite list in the order
  it is delivered;
  \<open>client_download_media msg path k\<close> is what the call \<open>client.download_media\<close> for
  \<open>msg\<close> to \<open>path\<close> does after \<open>k\<close> failed attempts at that message: it saves the file, or
  raises an exception \<open>e\<close>, represented by \<open>str(e)\<close>.
\<close>

type_synonym entity = int

datatype download_result = Saved | Raised string

record client =
  get_entity :: "string \<Rightarrow> entity option"
  iter_messages :: "entity \<Rightarrow> message list"
  client_download_media :: "message \<Rightarrow> string \<Rightarrow> nat \<Rightarrow> download_result"

text \<open>
  After a successful download the \<open>try\<close> block goes on with two statements: the
  \<open>print\<close> of the tick mark and the \<open>f.write\<close> of the annotation line. Each of them
  may raise, and its exception is then caught by the handler of the loop, like one of
  the download. \<open>print_tick lg msg k\<close> and \<open>write_media_line lg msg k\<close> say what the
  two statements do for \<open>msg\<close> after \<open>k\<close> caught exceptions: \<open>None\<close> when the statement
  completes, \<open>Some e\<close> when it raises an exception \<open>e\<close>, represented by \<open>str(e)\<close>.
\<close>

record logging =
  print_tick :: "message \<Rightarrow> nat \<Rightarrow> string option"
  write_media_line :: "message \<Rightarrow> nat \<Rightarrow> string option"

text \<open>The arguments of \<open>download_chat\<close>\<close>

record config =
  api_id :: int
  api_hash :: string
  chat_username :: string
  output_dir :: string
  download_media :: bool
  media_filter :: string
  media_max_size :: "int option"

text \<open>
  The local variables of \<open>download_chat\<close> that live across messages, the strings written
  to the transcript file \<open>f\<close> (one per call of \<open>f.write\<close>, in order), and the download
  attempts and waits, in the order they happen.
\<close>

datatype event = DownloadMedia int string | Sleep nat

record state =
  message_count :: nat
  media_count :: nat
  media_skipped :: nat
  media_filtered :: nat
  media_failed :: nat
  transcript :: "string list"
  events :: "event list"

definition initial_state :: state where
  "initial_state =
     \<lparr>message_count = 0, media_count = 0, media_skipped = 0, media_filtered = 0,
      media_failed = 0, transcript = [], events = []\<rparr>"

definition f_write :: "string \<Rightarrow> state \<Rightarrow> state" where
  "f_write s st = st\<lparr>transcript := transcript st @ [s]\<rparr>"

definition emit :: "event \<Rightarrow> state \<Rightarrow> state" where
  "emit e st = st\<lparr>events := events st @ [e]\<rparr>"

section \<open>Download with retries\<close>

definition max_retries :: nat where
  "max_retries = 3"

text \<open>
  The \<open>try\<close> block of one iteration of the \<open>while\<close> loop: the exception it raises, if
  any, and the values it leaves in \<open>download_success\<close> and in the state. The download
  is counted and \<open>download_success\<close> is set before the tick is printed and the line is
  written. The statements before the call of \<open>client.download_media\<close> (the file name and
  the progress message) are taken to complete.
\<close>

definition try_download ::
  "client \<Rightarrow> logging \<Rightarrow> string \<Rightarrow> string \<Rightarrow> string option \<Rightarrow> message \<Rightarrow> nat \<Rightarrow> bool \<Rightarrow> state
     \<Rightarrow> string option \<times> bool \<times> state" where
  "try_download cl lg media_dir timestamp sender_name msg retry_count download_success st =
     (let media_filename = media_filename_of msg;
          media_path = os_path_join media_dir media_filename;
          st1 = emit (DownloadMedia (message_id msg) media_path) st
      in case client_download_media cl msg media_path retry_count of
           Raised e \<Rightarrow> (Some e, download_success, st1)
         | Saved \<Rightarrow>
             (let st2 = st1\<lparr>media_count := media_count st1 + 1\<rparr> in
              case print_tick lg msg retry_count of
                Some e \<Rightarrow> (Some e, True, st2)
              | None \<Rightarrow>
                  (case write_media_line lg msg retry_count of
                     Some e \<Rightarrow> (Some e, True, st2)
                   | None \<Rightarrow>
                       (None, True,
                        f_write (''['' @ timestamp @ ''] <'' @ py_str sender_name
                                   @ ''> [MEDIA: '' @ media_filename @ '']\<newline>'') st2))))"

text \<open>
  The \<open>while\<close> loop of \<open>download_chat\<close>, with its variables \<open>retry_count\<close> and
  \<open>download_success\<close>, and the handler \<open>except Exception\<close> of its \<open>try\<close> block.
\<close>

function retry_loop ::
  "client \<Rightarrow> logging \<Rightarrow> string \<Rightarrow> string \<Rightarrow> string option \<Rightarrow> message \<Rightarrow> nat \<Rightarrow> bool \<Rightarrow> state
     \<Rightarrow> state" where
  "retry_loop cl lg media_dir timestamp sender_name msg retry_count download_success st =
     (if retry_count < max_retries \<and> \<not> download_success then
        (case try_download cl lg media_dir timestamp sender_name msg retry_count
                download_success st of
           (None, download_success', st') \<Rightarrow>
             retry_loop cl lg media_dir timestamp sender_name msg retry_count download_success' st'
         | (Some error_msg, download_success', st') \<Rightarrow>
             (let retry_count' = retry_count + 1 in
              if retry_count' \<ge> max_retries then
                retry_loop cl lg media_dir timestamp sender_name msg retry_count'
                  download_success'
                  (f_write (''['' @ timestamp @ ''] <'' @ py_str sender_name
                              @ ''> [MEDIA: Download failed - '' @ error_msg @ '']\<newline>'')
                     (st'\<lparr>media_failed := media_failed st' + 1\<rparr>))
              else
                retry_loop cl lg media_dir timestamp sender_name msg retry_count'
                  download_success' (emit (Sleep 3) st')))
      else st)"
  by pat_completeness auto
termination
  by (relation "measure (\<lambda>(cl, lg, media_dir, timestamp, sender_name, msg, retry_count,
        download_success, st). (if download_success then 0 else 1) + (max_retries - retry_count))")
     (auto simp: max_retries_def try_download_def Let_def
        split: download_result.splits option.splits)

declare retry_loop.simps [simp del]

section \<open>The export loop\<close>

text \<open>\<open>a or b\<close> on values that are \<open>None\<close> or a string\<close>

fun py_or :: "string option \<Rightarrow> string option \<Rightarrow> string option" where
  "py_or None b = b"
| "py_or (Some s) b = (if s = [] then b else Some s)"

definition get_sender_name :: "message \<Rightarrow> string option" where
  "get_sender_name msg =
     (case sender msg of
        Some s \<Rightarrow> py_or (getattr (username s) None) (getattr (first_name s) (Some ''Unknown''))
      | None \<Rightarrow> Some ''Unknown'')"

definition format_timestamp :: "message \<Rightarrow> string" where
  "format_timestamp msg = (case date msg of Some d \<Rightarrow> strftime d | None \<Rightarrow> [])"

text \<open>
  The body of the loop over the messages. \<open>media_dir\<close> is set by \<open>download_chat\<close>
  exactly when \<open>download_media\<close> is, to the path joined below.
\<close>

definition process_message ::
  "client \<Rightarrow> logging \<Rightarrow> config \<Rightarrow> state \<Rightarrow> message \<Rightarrow> state" where
  "process_message cl lg cfg st0 msg =
     (let st1 = st0\<lparr>message_count := message_count st0 + 1\<rparr>;
          sender_name = get_sender_name msg;
          timestamp = format_timestamp msg;
          st2 = (if message_text msg \<noteq> []
                 then f_write (''['' @ timestamp @ ''] <'' @ py_str sender_name @ ''> ''
                                 @ message_text msg @ ''\<newline>'') st1
                 else st1)
      in case media msg of
           None \<Rightarrow> st2
         | Some m \<Rightarrow>
             if download_media cfg then
               (let media_type = get_media_type msg;
                    media_size = get_media_size msg;
                    (should_download, skip_reason) =
                       apply_filters (media_filter cfg) (media_max_size cfg) media_type media_size
                in if \<not> should_download then
                     f_write (''['' @ timestamp @ ''] <'' @ py_str sender_name @ ''> [MEDIA: ''
                                @ py_str skip_reason @ '']\<newline>'')
                       (st2\<lparr>media_filtered := media_filtered st2 + 1\<rparr>)
                   else
                     retry_loop cl lg (os_path_join (output_dir cfg) ''media'') timestamp
                       sender_name msg 0 False st2)
             else
               f_write (''['' @ timestamp @ ''] <'' @ py_str sender_name
                          @ ''> [MEDIA: not downloaded]\<newline>'')
                 (st2\<lparr>media_skipped := media_skipped st2 + 1\<rparr>))"

fun process_messages ::
  "client \<Rightarrow> logging \<Rightarrow> config \<Rightarrow> state \<Rightarrow> message list \<Rightarrow> state" where
  "process_messages cl lg cfg st [] = st"
| "process_messages cl lg cfg st (msg # rest) =
     process_messages cl lg cfg (process_message cl lg cfg st msg) rest"

text \<open>
  \<open>download_chat\<close>: \<open>None\<close> when the chat cannot be found (no transcript is opened),
  otherwise the state after the last message. The statements outside the \<open>try\<close> block
  are taken to complete: an exception of one of them ends the run. What they print to
  the console (progress and summary) is left out, as are the creation of the
  directories and the start and the release of the session.
\<close>

definition download_chat :: "client \<Rightarrow> logging \<Rightarrow> config \<Rightarrow> state option" where
  "download_chat cl lg cfg =
     (case get_entity cl (chat_username cfg) of
        None \<Rightarrow> None
      | Some chat \<Rightarrow>
          Some (process_messages cl lg cfg initial_state (iter_messages cl chat)))"

section \<open>Command line\<close>

text \<open>
  \<open>main\<close> either leaves through \<open>sys.exit\<close> with a code, or calls \<open>download_chat\<close> with
  the arguments it has parsed. The built-in \<open>int\<close> is a parameter \<open>py_int\<close>: \<open>None\<close> when
  it raises \<open>ValueError\<close>.
\<close>

datatype outcome = Exit int | Run config

definition valid_options :: "(string \<times> nat) list" where
  "valid_options =
     [(''--download-media'', 0), (''--media-filter'', 1), (''--media-max-size'', 1),
      (''--output-dir'', 1)]"

text \<open>
  The \<open>while\<close> loop over \<open>sys.argv[i:]\<close>. The four branches cover the keys of
  \<open>valid_options\<close>, so the last one is reached by \<open>--media-max-size\<close> only.
\<close>

fun parse_options :: "(string \<Rightarrow> int option) \<Rightarrow> string list \<Rightarrow> config \<Rightarrow> outcome" where
  "parse_options py_int [] cfg = Run cfg"
| "parse_options py_int (arg # rest) cfg =
     (if \<not> startswith arg ''--'' then Exit 1
      else if arg \<notin> set (map fst valid_options) then Exit 1
      else if arg = ''--download-media'' then
        parse_options py_int rest (cfg\<lparr>download_media := True\<rparr>)
      else if arg = ''--output-dir'' then
        (case rest of
           [] \<Rightarrow> Exit 1
         | v # rest' \<Rightarrow> parse_options py_int rest' (cfg\<lparr>output_dir := v\<rparr>))
      else if arg = ''--media-filter'' then
        (case rest of
           [] \<Rightarrow> Exit 1
         | v # rest' \<Rightarrow>
             (let mf = lower v in
              if mf \<notin> set [''image'', ''audio'', ''video'', ''other'', ''all''] then Exit 1
              else parse_options py_int rest' (cfg\<lparr>media_filter := mf\<rparr>)))
      else
        (case rest of
           [] \<Rightarrow> Exit 1
         | v # rest' \<Rightarrow>
             (case py_int v of
                None \<Rightarrow> Exit 1
              | Some n \<Rightarrow>
                  if n \<le> 0 then Exit 1
                  else parse_options py_int rest' (cfg\<lparr>media_max_size := Some n\<rparr>))))"

definition main :: "(string \<Rightarrow> int option) \<Rightarrow> string list \<Rightarrow> outcome" where
  "main py_int argv =
     (if ''--help'' \<in> set argv \<or> ''-h'' \<in> set argv then Exit 0
      else if length argv < 4 then Exit 1
      else case py_int (argv ! 1) of
             None \<Rightarrow> Exit 1
           | Some n \<Rightarrow>
               parse_options py_int (drop 4 argv)
                 \<lparr>api_id = n, api_hash = argv ! 2, chat_username = argv ! 3,
                  output_dir = ''backup'', download_media = False, media_filter = ''all'',
                  media_max_size = None\<rparr>)"

section \<open>Notions used to state the properties\<close>

text \<open>
  The class that one type-hint attribute signals, if any: audio for a class name that
  contains Audio or Voice, video for Video, image for Photo.
\<close>

definition hint_class :: "document_attribute \<Rightarrow> string option" where
  "hint_class a =
     (if str_contains ''Audio'' (type_name a) \<or> str_contains ''Voice'' (type_name a)
      then Some ''audio''
      else if str_contains ''Video'' (type_name a) then Some ''video''
      else if str_contains ''Photo'' (type_name a) then Some ''image''
      else None)"

text \<open>
  The prefix of every line the export writes for a message, the text line of a message
  (none when it has no text), and the annotation line with a given bracketed payload.
\<close>

definition line_prefix :: "message \<Rightarrow> string" where
  "line_prefix msg =
     ''['' @ format_timestamp msg @ ''] <'' @ py_str (get_sender_name msg) @ ''> ''"

definition text_lines :: "message \<Rightarrow> string list" where
  "text_lines msg =
     (if message_text msg \<noteq> [] then [line_prefix msg @ message_text msg @ ''\<newline>''] else [])"

definition media_line :: "message \<Rightarrow> string \<Rightarrow> string" where
  "media_line msg payload = line_prefix msg @ ''[MEDIA: '' @ payload @ '']\<newline>''"

section \<open>Example inputs\<close>

definition example_sender :: sender where
  "example_sender = \<lparr>username = Present (Some ''alice''), first_name = Present (Some ''Alice'')\<rparr>"

definition example_voice_note :: message where
  "example_voice_note =
     \<lparr>message_id = 7, date = Some (Datetime ''2024-01-02 03:04:05''),
      sender = Some example_sender, message_text = [],
      media = Some (MessageMediaDocument
        \<lparr>mime_type = Present ''application/ogg'',
         attributes =
           [\<lparr>type_name = ''DocumentAttributeFilename'', file_name = Present ''note.ogg''\<rparr>,
            \<lparr>type_name = ''DocumentAttributeAudio'', file_name = Absent\<rparr>],
         doc_size = Present 6000\<rparr>)\<rparr>"

definition example_photo :: message where
  "example_photo =
     \<lparr>message_id = 8, date = Some (Datetime ''2024-01-02 03:04:06''),
      sender = Some example_sender, message_text = ''look'',
      media = Some (MessageMediaPhoto
        (Photo (Present [Present 300, Absent, Present 7000, Present 5000])))\<rparr>"

definition example_video :: message where
  "example_video =
     \<lparr>message_id = 9, date = None, sender = None, message_text = [],
      media = Some (MessageMediaDocument
        \<lparr>mime_type = Present ''video/mp4'', attributes = [], doc_size = Present 1000\<rparr>)\<rparr>"

definition example_text :: message where
  "example_text =
     \<lparr>message_id = 6, date = None, sender = None, message_text = ''hello'', media = None\<rparr>"

text \<open>
  A client that finds one chat. Its downloads of message 7 always fail, with a different
  error each time; every other download fails once and then succeeds.
\<close>

definition example_client :: client where
  "example_client =
     \<lparr>get_entity = (\<lambda>name. if name = ''somechat'' then Some 1 else None),
      iter_messages = (\<lambda>chat. [example_text, example_photo, example_voice_note, example_video]),
      client_download_media = (\<lambda>msg path k.
         if message_id msg = 7
         then Raised (if k = 0 then ''timed out'' else if k = 1 then ''reset'' else ''flood wait'')
         else if k = 0 then Raised ''timed out'' else Saved)\<rparr>"

text \<open>
  Log statements that always complete, and a console that cannot encode the tick mark:
  every \<open>print\<close> of it raises.
\<close>

definition quiet_logging :: logging where
  "quiet_logging = \<lparr>print_tick = (\<lambda>msg k. None), write_media_line = (\<lambda>msg k. None)\<rparr>"

definition ascii_console :: logging where
  "ascii_console =
     \<lparr>print_tick = (\<lambda>msg k. Some ''codec cannot encode''),
      write_media_line = (\<lambda>msg k. None)\<rparr>"

text \<open>A client whose downloads fail twice and succeed at the third attempt\<close>

definition slow_client :: client where
  "slow_client =
     \<lparr>get_entity = (\<lambda>name. Some 1), iter_messages = (\<lambda>chat. [example_video]),
      client_download_media = (\<lambda>msg path k. if k < 2 then Raised ''timed out'' else Saved)\<rparr>"

definition example_config :: config where
  "example_config =
     \<lparr>api_id = 12345, api_hash = ''abcdef'', chat_username = ''somechat'',
      output_dir = ''backup'', download_media = True, media_filter = ''all'',
      media_max_size = Some 6500\<rparr>"

text \<open>
  A message from a deleted account: the sender is a user whose \<open>username\<close> and
  \<open>first_name\<close> are both \<open>None\<close>.
\<close>

definition deleted_account_message :: message where
  "deleted_account_message =
     \<lparr>message_id = 10, date = None,
      sender = Some \<lparr>username = Present None, first_name = Present None\<rparr>,
      message_text = ''bye'', media = None\<rparr>"

text \<open>A stand-in for the built-in \<open>int\<close> that knows one numeral\<close>

definition example_int :: "string \<Rightarrow> int option" where
  "example_int s = (if s = ''12345'' then Some 12345 else None)"

text \<open>
  The scenario of the specification: a text message, a photo of 2,000,000 bytes and a
  video document of 10,000,000 bytes, with a client whose downloads succeed.
\<close>

definition scenario_messages :: "message list" where
  "scenario_messages =
     [\<lparr>message_id = 1, date = Some (Datetime ''2024-05-01 10:00:00''),
       sender = Some example_sender, message_text = ''hello'', media = None\<rparr>,
      \<lparr>message_id = 2, date = Some (Datetime ''2024-05-01 10:00:01''),
       sender = Some example_sender, message_text = [],
       media = Some (MessageMediaPhoto (Photo (Present [Present 2000000])))\<rparr>,
      \<lparr>message_id = 3, date = Some (Datetime ''2024-05-01 10:00:02''),
       sender = Some example_sender, message_text = [],
       media = Some (MessageMediaDocument
         \<lparr>mime_type = Present ''video/mp4'', attributes = [], doc_size = Present 10000000\<rparr>)\<rparr>]"

definition scenario_client :: client where
  "scenario_client =
     \<lparr>get_entity = (\<lambda>name. Some 1), iter_messages = (\<lambda>chat. scenario_messages),
      client_download_media = (\<lambda>msg path k. Saved)\<rparr>"

definition scenario_config :: config where
  "scenario_config =
     \<lparr>api_id = 12345, api_hash = ''abcdef'', chat_username = ''somechat'',
      output_dir = ''backup'', download_media = True, media_filter = ''all'',
      media_max_size = Some 5000000\<rparr>"

section \<open>Properties\<close>

subsection \<open>The filter decision and the cases of the loop body\<close>

lemma apply_filters_type:
  "mf \<noteq> ''all'' \<Longrightarrow> mt \<noteq> Some mf \<Longrightarrow>
   apply_filters mf mx mt sz = (False, Some (''filtered ('' @ py_str mt @ '')''))"
  by (simp add: apply_filters_def)

lemma apply_filters_pass:
  "mf = ''all'' \<or> mt = Some mf \<Longrightarrow>
   apply_filters mf mx mt sz =
     (case mx of
        None \<Rightarrow> (True, None)
      | Some n \<Rightarrow>
          if n \<noteq> 0 \<and> sz > n
          then (False, Some (''too large ('' @ format_comma sz @ '' bytes)''))
          else (True, None))"
  by (auto simp: apply_filters_def split: option.splits)

lemma get_media_type_Some: "media msg = Some m \<Longrightarrow> \<exists>c. get_media_type msg = Some c"
  by (auto simp: get_media_type_def split: message_media.splits option.splits)

lemma get_media_type_media: "get_media_type msg = Some c \<Longrightarrow> \<exists>m. media msg = Some m"
  by (cases "media msg") (simp_all add: get_media_type_def)

lemma process_message_rejected:
  assumes "download_media cfg" and "media msg = Some m"
    and "apply_filters (media_filter cfg) (media_max_size cfg) (get_media_type msg)
           (get_media_size msg) = (False, Some reason)"
  shows "process_message cl lg cfg st msg =
           st\<lparr>message_count := message_count st + 1,
              media_filtered := media_filtered st + 1,
              transcript := transcript st @ text_lines msg @ [media_line msg reason]\<rparr>"
  using assms
  by (simp add: process_message_def Let_def f_write_def text_lines_def media_line_def
      line_prefix_def)

lemma process_message_accepted:
  assumes "download_media cfg" and "media msg = Some m"
    and "apply_filters (media_filter cfg) (media_max_size cfg) (get_media_type msg)
           (get_media_size msg) = (True, r)"
  shows "process_message cl lg cfg st msg =
           retry_loop cl lg (os_path_join (output_dir cfg) ''media'') (format_timestamp msg)
             (get_sender_name msg) msg 0 False
             (st\<lparr>message_count := message_count st + 1,
                 transcript := transcript st @ text_lines msg\<rparr>)"
  using assms
  by (simp add: process_message_def Let_def f_write_def text_lines_def line_prefix_def)

lemma process_message_disabled:
  assumes "\<not> download_media cfg" and "media msg = Some m"
  shows "process_message cl lg cfg st msg =
           st\<lparr>message_count := message_count st + 1,
              media_skipped := media_skipped st + 1,
              transcript := transcript st @ text_lines msg @ [media_line msg ''not downloaded'']\<rparr>"
  using assms
  by (simp add: process_message_def Let_def f_write_def text_lines_def media_line_def
      line_prefix_def)

lemma process_message_no_media:
  assumes "media msg = None"
  shows "process_message cl lg cfg st msg =
           st\<lparr>message_count := message_count st + 1,
              transcript := transcript st @ text_lines msg\<rparr>"
  using assms
  by (simp add: process_message_def Let_def f_write_def text_lines_def line_prefix_def)

subsection \<open>The retry loop\<close>

lemma retry_loop_done:
  "download_success \<or> max_retries \<le> retry_count \<Longrightarrow>
   retry_loop cl lg d ts sn msg retry_count download_success st = st"
  by (subst retry_loop.simps) auto

lemma try_download_raised:
  "client_download_media cl msg (os_path_join d (media_filename_of msg)) k = Raised e \<Longrightarrow>
   try_download cl lg d ts sn msg k ds st =
     (Some e, ds, emit (DownloadMedia (message_id msg) (os_path_join d (media_filename_of msg))) st)"
  by (simp add: try_download_def Let_def)

lemma try_download_logged:
  "client_download_media cl msg (os_path_join d (media_filename_of msg)) k = Saved \<Longrightarrow>
   print_tick lg msg k = None \<Longrightarrow> write_media_line lg msg k = None \<Longrightarrow>
   try_download cl lg d ts sn msg k ds st =
     (None, True,
      st\<lparr>media_count := media_count st + 1,
         transcript := transcript st @
           [''['' @ ts @ ''] <'' @ py_str sn @ ''> [MEDIA: '' @ media_filename_of msg @ '']\<newline>''],
         events := events st @
           [DownloadMedia (message_id msg) (os_path_join d (media_filename_of msg))]\<rparr>)"
  by (simp add: try_download_def Let_def emit_def f_write_def)

lemma try_download_tick_raised:
  "client_download_media cl msg (os_path_join d (media_filename_of msg)) k = Saved \<Longrightarrow>
   print_tick lg msg k = Some e \<Longrightarrow>
   try_download cl lg d ts sn msg k ds st =
     (Some e, True,
      st\<lparr>media_count := media_count st + 1,
         events := events st @
           [DownloadMedia (message_id msg) (os_path_join d (media_filename_of msg))]\<rparr>)"
  by (simp add: try_download_def Let_def emit_def)

text \<open>
  When the two log statements complete for a message, the loop leaves exactly one of two
  marks: a download counted and its line written, or a failure counted and its line
  written.
\<close>

lemma retry_loop_outcome:
  assumes logged: "\<forall>k. print_tick lg msg k = None \<and> write_media_line lg msg k = None"
  shows "retry_count < max_retries \<Longrightarrow>
   (\<exists>evs. retry_loop cl lg d ts sn msg retry_count False st =
      st\<lparr>media_count := media_count st + 1,
         transcript := transcript st @
           [''['' @ ts @ ''] <'' @ py_str sn @ ''> [MEDIA: '' @ media_filename_of msg @ '']\<newline>''],
         events := events st @ evs\<rparr>) \<or>
   (\<exists>evs e. retry_loop cl lg d ts sn msg retry_count False st =
      st\<lparr>media_failed := media_failed st + 1,
         transcript := transcript st @
           [''['' @ ts @ ''] <'' @ py_str sn @ ''> [MEDIA: Download failed - '' @ e @ '']\<newline>''],
         events := events st @ evs\<rparr>)"
proof (induction "max_retries - retry_count" arbitrary: retry_count st)
  case 0
  then show ?case by simp
next
  case (Suc n)
  let ?p = "os_path_join d (media_filename_of msg)"
  let ?st1 = "emit (DownloadMedia (message_id msg) ?p) st"
  show ?case
  proof (cases "client_download_media cl msg ?p retry_count")
    case Saved
    have "retry_loop cl lg d ts sn msg retry_count False st =
            st\<lparr>media_count := media_count st + 1,
               transcript := transcript st @
                 [''['' @ ts @ ''] <'' @ py_str sn @ ''> [MEDIA: '' @ media_filename_of msg @ '']\<newline>''],
               events := events st @ [DownloadMedia (message_id msg) ?p]\<rparr>"
      using Suc.prems logged
      by (subst retry_loop.simps) (simp add: try_download_logged [OF Saved] retry_loop_done)
    then show ?thesis by blast
  next
    case (Raised e)
    note t = try_download_raised [OF Raised, of lg ts sn False st]
    show ?thesis
    proof (cases "max_retries \<le> retry_count + 1")
      case True
      have "retry_loop cl lg d ts sn msg retry_count False st =
              st\<lparr>media_failed := media_failed st + 1,
                 transcript := transcript st @
                   [''['' @ ts @ ''] <'' @ py_str sn @ ''> [MEDIA: Download failed - '' @ e @ '']\<newline>''],
                 events := events st @ [DownloadMedia (message_id msg) ?p]\<rparr>"
        using Suc.prems True
        by (subst retry_loop.simps) (simp add: t Let_def retry_loop_done emit_def f_write_def)
      then show ?thesis by blast
    next
      case False
      let ?st2 = "emit (Sleep 3) ?st1"
      have step: "retry_loop cl lg d ts sn msg retry_count False st =
                    retry_loop cl lg d ts sn msg (retry_count + 1) False ?st2"
        using Suc.prems False
        by (subst retry_loop.simps) (simp add: t Let_def)
      have n: "n = max_retries - (retry_count + 1)" using Suc.hyps(2) by simp
      have lt: "retry_count + 1 < max_retries" using False by simp
      from Suc.hyps(1) [OF n lt, of ?st2] show ?thesis
      proof
        assume "\<exists>evs. retry_loop cl lg d ts sn msg (retry_count + 1) False ?st2 =
          ?st2\<lparr>media_count := media_count ?st2 + 1,
             transcript := transcript ?st2 @
               [''['' @ ts @ ''] <'' @ py_str sn @ ''> [MEDIA: '' @ media_filename_of msg @ '']\<newline>''],
             events := events ?st2 @ evs\<rparr>"
        then obtain evs where "retry_loop cl lg d ts sn msg (retry_count + 1) False ?st2 =
          ?st2\<lparr>media_count := media_count ?st2 + 1,
             transcript := transcript ?st2 @
               [''['' @ ts @ ''] <'' @ py_str sn @ ''> [MEDIA: '' @ media_filename_of msg @ '']\<newline>''],
             events := events ?st2 @ evs\<rparr>" ..
        with step have "retry_loop cl lg d ts sn msg retry_count False st =
          st\<lparr>media_count := media_count st + 1,
             transcript := transcript st @
               [''['' @ ts @ ''] <'' @ py_str sn @ ''> [MEDIA: '' @ media_filename_of msg @ '']\<newline>''],
             events := events st @ ([DownloadMedia (message_id msg) ?p, Sleep 3] @ evs)\<rparr>"
          by (simp add: emit_def)
        then show ?thesis by blast
      next
        assume "\<exists>evs e. retry_loop cl lg d ts sn msg (retry_count + 1) False ?st2 =
          ?st2\<lparr>media_failed := media_failed ?st2 + 1,
             transcript := transcript ?st2 @
               [''['' @ ts @ ''] <'' @ py_str sn @ ''> [MEDIA: Download failed - '' @ e @ '']\<newline>''],
             events := events ?st2 @ evs\<rparr>"
        then obtain evs e' where "retry_loop cl lg d ts sn msg (retry_count + 1) False ?st2 =
          ?st2\<lparr>media_failed := media_failed ?st2 + 1,
             transcript := transcript ?st2 @
               [''['' @ ts @ ''] <'' @ py_str sn @ ''> [MEDIA: Download failed - '' @ e' @ '']\<newline>''],
             events := events ?st2 @ evs\<rparr>" by blast
        with step have "retry_loop cl lg d ts sn msg retry_count False st =
          st\<lparr>media_failed := media_failed st + 1,
             transcript := transcript st @
               [''['' @ ts @ ''] <'' @ py_str sn @ ''> [MEDIA: Download failed - '' @ e' @ '']\<newline>''],
             events := events st @ ([DownloadMedia (message_id msg) ?p, Sleep 3] @ evs)\<rparr>"
          by (simp add: emit_def)
        then show ?thesis by blast
      qed
    qed
  qed
qed


subsection \<open>Number formatting\<close>

lemma digit_char_no_comma: "d < 10 \<Longrightarrow> CHR '','' \<noteq> digit_char d"
proof -
  assume "d < 10"
  then have "d \<in> {0, 1, 2, 3, 4, 5, 6, 7, 8, 9}" by auto
  then show ?thesis by (auto simp: digit_char_def)
qed

lemma str_nat_no_comma: "CHR '','' \<notin> set (str_nat n)"
proof (induction n rule: str_nat.induct)
  case (1 n)
  show ?case
  proof (cases "n < 10")
    case True
    then show ?thesis by (subst str_nat.simps) (simp add: digit_char_no_comma)
  next
    case False
    with 1 show ?thesis by (subst str_nat.simps) (simp add: digit_char_no_comma)
  qed
qed

lemma filter_group3: "filter (\<lambda>c. c \<noteq> CHR '','') (group3 ds) = filter (\<lambda>c. c \<noteq> CHR '','') ds"
  by (induction ds rule: group3.induct) simp_all

lemma format_comma_digits: "filter (\<lambda>c. c \<noteq> CHR '','') (format_comma i) = str_int i"
proof -
  have "filter (\<lambda>c. c \<noteq> CHR '','') (rev (group3 (rev (str_nat n)))) = str_nat n" for n
    using str_nat_no_comma [of n]
    by (auto simp: rev_filter [symmetric] filter_group3 filter_id_conv)
  then show ?thesis
    by (simp add: format_comma_def str_int_def abs_if)
qed

subsection \<open>What one message changes\<close>

lemma apply_filters_cases:
  "apply_filters mf mx mt sz = (True, None) \<or>
   (\<exists>reason. apply_filters mf mx mt sz = (False, Some reason))"
  by (auto simp: apply_filters_def split: option.splits)

text \<open>
  When the two log statements complete for a message, processing it adds its text line
  and one annotation line, and adds one to exactly one media counter.
\<close>

lemma process_message_shape:
  assumes logged: "\<forall>k. print_tick lg msg k = None \<and> write_media_line lg msg k = None"
  shows "\<exists>payload evs a b c d.
     process_message cl lg cfg st msg =
       st\<lparr>message_count := message_count st + 1,
          media_count := media_count st + a,
          media_filtered := media_filtered st + b,
          media_failed := media_failed st + c,
          media_skipped := media_skipped st + d,
          transcript := transcript st @ text_lines msg @
            (if media msg = None then [] else [media_line msg payload]),
          events := events st @ evs\<rparr> \<and>
     (if media msg = None then a = 0 \<and> b = 0 \<and> c = 0 \<and> d = 0
      else if download_media cfg then d = 0 \<and> a + b + c = 1
      else a = 0 \<and> b = 0 \<and> c = 0 \<and> d = 1)"
proof (cases "media msg")
  case None
  have "process_message cl lg cfg st msg =
       st\<lparr>message_count := message_count st + 1,
          media_count := media_count st + 0,
          media_filtered := media_filtered st + 0,
          media_failed := media_failed st + 0,
          media_skipped := media_skipped st + 0,
          transcript := transcript st @ text_lines msg @
            (if media msg = None then [] else [media_line msg []]),
          events := events st @ []\<rparr>"
    using None by (simp add: process_message_no_media)
  with None show ?thesis by fastforce
next
  case (Some m)
  show ?thesis
  proof (cases "download_media cfg")
    case False
    have "process_message cl lg cfg st msg =
       st\<lparr>message_count := message_count st + 1,
          media_count := media_count st + 0,
          media_filtered := media_filtered st + 0,
          media_failed := media_failed st + 0,
          media_skipped := media_skipped st + 1,
          transcript := transcript st @ text_lines msg @
            (if media msg = None then [] else [media_line msg ''not downloaded'']),
          events := events st @ []\<rparr>"
      using Some False by (simp add: process_message_disabled)
    with Some False show ?thesis by fastforce
  next
    case True
    from apply_filters_cases [of "media_filter cfg" "media_max_size cfg" "get_media_type msg"
        "get_media_size msg"]
    show ?thesis
    proof
      assume acc: "apply_filters (media_filter cfg) (media_max_size cfg) (get_media_type msg)
        (get_media_size msg) = (True, None)"
      let ?st = "st\<lparr>message_count := message_count st + 1,
                 transcript := transcript st @ text_lines msg\<rparr>"
      let ?d = "os_path_join (output_dir cfg) ''media''"
      have p: "process_message cl lg cfg st msg =
                 retry_loop cl lg ?d (format_timestamp msg) (get_sender_name msg) msg 0 False ?st"
        by (rule process_message_accepted [OF True Some acc])
      have "0 < max_retries" by (simp add: max_retries_def)
      from retry_loop_outcome [OF logged this, where cl = cl and d = "?d"
          and ts = "format_timestamp msg" and sn = "get_sender_name msg" and st = "?st"]
      show ?thesis
      proof
        assume "\<exists>evs. retry_loop cl lg ?d (format_timestamp msg) (get_sender_name msg) msg 0 False ?st =
          ?st\<lparr>media_count := media_count ?st + 1,
             transcript := transcript ?st @
               [''['' @ format_timestamp msg @ ''] <'' @ py_str (get_sender_name msg) @ ''> [MEDIA: ''
                  @ media_filename_of msg @ '']\<newline>''],
             events := events ?st @ evs\<rparr>"
        then obtain evs where "retry_loop cl lg ?d (format_timestamp msg) (get_sender_name msg) msg 0 False ?st =
          ?st\<lparr>media_count := media_count ?st + 1,
             transcript := transcript ?st @
               [''['' @ format_timestamp msg @ ''] <'' @ py_str (get_sender_name msg) @ ''> [MEDIA: ''
                  @ media_filename_of msg @ '']\<newline>''],
             events := events ?st @ evs\<rparr>" ..
        with p have "process_message cl lg cfg st msg =
           st\<lparr>message_count := message_count st + 1,
              media_count := media_count st + 1,
              media_filtered := media_filtered st + 0,
              media_failed := media_failed st + 0,
              media_skipped := media_skipped st + 0,
              transcript := transcript st @ text_lines msg @
                (if media msg = None then [] else [media_line msg (media_filename_of msg)]),
              events := events st @ evs\<rparr>"
          using Some by (simp add: media_line_def line_prefix_def)
        with Some True show ?thesis by fastforce
      next
        assume "\<exists>evs e. retry_loop cl lg ?d (format_timestamp msg) (get_sender_name msg) msg 0 False ?st =
          ?st\<lparr>media_failed := media_failed ?st + 1,
             transcript := transcript ?st @
               [''['' @ format_timestamp msg @ ''] <'' @ py_str (get_sender_name msg)
                  @ ''> [MEDIA: Download failed - '' @ e @ '']\<newline>''],
             events := events ?st @ evs\<rparr>"
        then obtain evs e where "retry_loop cl lg ?d (format_timestamp msg) (get_sender_name msg) msg 0 False ?st =
          ?st\<lparr>media_failed := media_failed ?st + 1,
             transcript := transcript ?st @
               [''['' @ format_timestamp msg @ ''] <'' @ py_str (get_sender_name msg)
                  @ ''> [MEDIA: Download failed - '' @ e @ '']\<newline>''],
             events := events ?st @ evs\<rparr>" by blast
        with p have "process_message cl lg cfg st msg =
           st\<lparr>message_count := message_count st + 1,
              media_count := media_count st + 0,
              media_filtered := media_filtered st + 0,
              media_failed := media_failed st + 1,
              media_skipped := media_skipped st + 0,
              transcript := transcript st @ text_lines msg @
                (if media msg = None then [] else [media_line msg (''Download failed - '' @ e)]),
              events := events st @ evs\<rparr>"
          using Some by (simp add: media_line_def line_prefix_def)
        with Some True show ?thesis by fastforce
      qed
    next
      assume "\<exists>reason. apply_filters (media_filter cfg) (media_max_size cfg) (get_media_type msg)
        (get_media_size msg) = (False, Some reason)"
      then obtain reason where "apply_filters (media_filter cfg) (media_max_size cfg)
        (get_media_type msg) (get_media_size msg) = (False, Some reason)" ..
      from process_message_rejected [OF True Some this, where cl = cl and lg = lg and st = st]
      have "process_message cl lg cfg st msg =
           st\<lparr>message_count := message_count st + 1,
              media_count := media_count st + 0,
              media_filtered := media_filtered st + 1,
              media_failed := media_failed st + 0,
              media_skipped := media_skipped st + 0,
              transcript := transcript st @ text_lines msg @
                (if media msg = None then [] else [media_line msg reason]),
              events := events st @ []\<rparr>"
        using Some by simp
      with Some True show ?thesis by fastforce
    qed
  qed
qed


subsection \<open>Media classifier\<close>

lemma check_attributes_find:
  "check_attributes as =
     (case find (\<lambda>a. hint_class a \<noteq> None) as of None \<Rightarrow> None | Some a \<Rightarrow> hint_class a)"
  by (induction as) (simp_all add: hint_class_def Let_def)

lemma prefix_same_head: "prefix (a # as) s \<Longrightarrow> prefix (b # bs) s \<Longrightarrow> a = b"
  by (cases s) simp_all

lemma check_mime_None:
  "check_mime doc = None \<longleftrightarrow>
     (\<forall>m. mime_type doc = Present m \<longrightarrow>
        \<not> startswith (lower m) ''image/'' \<and> \<not> startswith (lower m) ''audio/'' \<and>
        \<not> startswith (lower m) ''video/'')"
  by (cases "mime_type doc") (auto simp: check_mime_def Let_def startswith_def lower_def)

lemma check_mime_Present:
  "mime_type doc = Present m \<Longrightarrow>
   check_mime doc =
     (if startswith (lower m) ''image/'' then Some ''image''
      else if startswith (lower m) ''audio/'' then Some ''audio''
      else if startswith (lower m) ''video/'' then Some ''video'' else None)"
  by (auto simp: check_mime_def Let_def startswith_def lower_def)

text \<open>
  Claim C4. \<open>get_media_type\<close> returns \<open>None\<close> when the message has no media and
  \<open>image\<close> for a photo. For a document whose mime type (compared in lower case) starts
  with \<open>image/\<close>, \<open>audio/\<close> or \<open>video/\<close> it returns that class. For a document whose
  mime type names none of the three (or is missing) it returns the class signalled by
  the first attribute that signals one, and \<open>other\<close> when no attribute does. Any other
  media is \<open>other\<close>. The result is a function of the media payload alone.
\<close>

theorem get_media_type_classifies:
  "(media msg = None \<longrightarrow> get_media_type msg = None) \<and>
   (\<forall>p. media msg = Some (MessageMediaPhoto p) \<longrightarrow> get_media_type msg = Some ''image'') \<and>
   (\<forall>doc m. media msg = Some (MessageMediaDocument doc) \<and> mime_type doc = Present m \<longrightarrow>
      (startswith (lower m) ''image/'' \<longrightarrow> get_media_type msg = Some ''image'') \<and>
      (startswith (lower m) ''audio/'' \<longrightarrow> get_media_type msg = Some ''audio'') \<and>
      (startswith (lower m) ''video/'' \<longrightarrow> get_media_type msg = Some ''video'')) \<and>
   (\<forall>doc. media msg = Some (MessageMediaDocument doc) \<and>
      (\<forall>m. mime_type doc = Present m \<longrightarrow>
         \<not> startswith (lower m) ''image/'' \<and> \<not> startswith (lower m) ''audio/'' \<and>
         \<not> startswith (lower m) ''video/'') \<longrightarrow>
      get_media_type msg =
        (case find (\<lambda>a. hint_class a \<noteq> None) (attributes doc) of
           Some a \<Rightarrow> hint_class a
         | None \<Rightarrow> Some ''other'')) \<and>
   (media msg = Some MessageMediaOther \<longrightarrow> get_media_type msg = Some ''other'') \<and>
   (\<forall>msg'. media msg' = media msg \<longrightarrow> get_media_type msg' = get_media_type msg)"
proof (intro conjI allI impI)
  fix doc m
  assume h: "media msg = Some (MessageMediaDocument doc) \<and> mime_type doc = Present m"
  { assume "startswith (lower m) ''image/''"
    with h show "get_media_type msg = Some ''image''"
      by (simp add: get_media_type_def check_mime_Present) }
  { assume "startswith (lower m) ''audio/''"
    with h show "get_media_type msg = Some ''audio''"
      by (auto simp: get_media_type_def check_mime_Present startswith_def
          dest: prefix_same_head) }
  { assume "startswith (lower m) ''video/''"
    with h show "get_media_type msg = Some ''video''"
      by (auto simp: get_media_type_def check_mime_Present startswith_def
          dest: prefix_same_head) }
next
  fix doc
  assume h: "media msg = Some (MessageMediaDocument doc) \<and>
      (\<forall>m. mime_type doc = Present m \<longrightarrow>
         \<not> startswith (lower m) ''image/'' \<and> \<not> startswith (lower m) ''audio/'' \<and>
         \<not> startswith (lower m) ''video/'')"
  then have "check_mime doc = None" by (simp add: check_mime_None)
  with h show "get_media_type msg =
        (case find (\<lambda>a. hint_class a \<noteq> None) (attributes doc) of
           Some a \<Rightarrow> hint_class a
         | None \<Rightarrow> Some ''other'')"
    by (auto simp: get_media_type_def check_attributes_find split: option.splits
        dest: find_Some_iff[THEN iffD1])
qed (simp_all add: get_media_type_def)

theorem get_media_type_classifies_witness:
  "get_media_type example_voice_note = Some ''audio'' \<and>
   get_media_type example_photo = Some ''image'' \<and>
   get_media_type (example_photo\<lparr>media := None\<rparr>) = None \<and>
   get_media_type (example_photo\<lparr>media := Some (MessageMediaDocument
      \<lparr>mime_type = Present ''Video/MP4'', attributes = [], doc_size = Absent\<rparr>)\<rparr>)
     = Some ''video''"
proof (intro conjI)
  let ?doc = "\<lparr>mime_type = Present ''application/ogg'',
         attributes =
           [\<lparr>type_name = ''DocumentAttributeFilename'', file_name = Present ''note.ogg''\<rparr>,
            \<lparr>type_name = ''DocumentAttributeAudio'', file_name = Absent\<rparr>],
         doc_size = Present 6000\<rparr>"
  have h: "media example_voice_note = Some (MessageMediaDocument ?doc)"
    by (simp add: example_voice_note_def)
  have n: "\<forall>m. mime_type ?doc = Present m \<longrightarrow>
         \<not> startswith (lower m) ''image/'' \<and> \<not> startswith (lower m) ''audio/'' \<and>
         \<not> startswith (lower m) ''video/''"
    by (simp add: lower_def lower_char_def startswith_def)
  have f: "(case find (\<lambda>a. hint_class a \<noteq> None) (attributes ?doc) of
           Some a \<Rightarrow> hint_class a
         | None \<Rightarrow> Some ''other'') = Some ''audio''"
    by (simp add: hint_class_def str_contains_def sublist_code)
  from get_media_type_classifies [of example_voice_note] h n
  have "get_media_type example_voice_note =
          (case find (\<lambda>a. hint_class a \<noteq> None) (attributes ?doc) of
             Some a \<Rightarrow> hint_class a
           | None \<Rightarrow> Some ''other'')"
    by blast
  with f show "get_media_type example_voice_note = Some ''audio''" by simp
next
  show "get_media_type example_photo = Some ''image''"
    using get_media_type_classifies [of example_photo] by (simp add: example_photo_def)
next
  show "get_media_type (example_photo\<lparr>media := None\<rparr>) = None"
    using get_media_type_classifies [of "example_photo\<lparr>media := None\<rparr>"] by simp
next
  let ?doc = "\<lparr>mime_type = Present ''Video/MP4'', attributes = [], doc_size = Absent\<rparr>"
  let ?msg = "example_photo\<lparr>media := Some (MessageMediaDocument ?doc)\<rparr>"
  have h: "media ?msg = Some (MessageMediaDocument ?doc) \<and> mime_type ?doc = Present ''Video/MP4''"
    by simp
  have v: "startswith (lower ''Video/MP4'') ''video/''"
    by (simp add: lower_def lower_char_def startswith_def)
  from get_media_type_classifies [of ?msg] h v
  show "get_media_type ?msg = Some ''video''" by blast
qed


subsection \<open>Media size\<close>

lemma fold_max_Max: "fold max ns (n::int) = Max (set (n # ns))"
  by (rule Max.set_eq_fold[symmetric])

lemma declared_set:
  "set (concat (map (\<lambda>s. case s of Present n \<Rightarrow> [n] | Absent \<Rightarrow> []) ss)) =
     {n. Present n \<in> set ss}"
  by (induction ss) (auto split: attr.splits)

text \<open>
  Claim C8. \<open>get_media_size\<close> is the declared size of a document (0 when the document
  declares none), the maximum of the sizes that the resolution variants of a photo
  declare (0 when no variant declares one, or the photo has no variants), and 0 when
  the message has no media or media of another kind.
\<close>

theorem get_media_size_reports:
  "(media msg = None \<longrightarrow> get_media_size msg = 0) \<and>
   (\<forall>doc. media msg = Some (MessageMediaDocument doc) \<longrightarrow>
      get_media_size msg = (case doc_size doc of Present n \<Rightarrow> n | Absent \<Rightarrow> 0)) \<and>
   (\<forall>p. media msg = Some (MessageMediaPhoto p) \<and> sizes p = Absent \<longrightarrow>
      get_media_size msg = 0) \<and>
   (\<forall>p ss. media msg = Some (MessageMediaPhoto p) \<and> sizes p = Present ss \<longrightarrow>
      get_media_size msg =
        (if {n. Present n \<in> set ss} = {} then 0 else Max {n. Present n \<in> set ss})) \<and>
   (media msg = Some MessageMediaOther \<longrightarrow> get_media_size msg = 0)"
proof (intro conjI allI impI)
  fix p ss
  assume h: "media msg = Some (MessageMediaPhoto p) \<and> sizes p = Present ss"
  let ?d = "concat (map (\<lambda>s. case s of Present n \<Rightarrow> [n] | Absent \<Rightarrow> []) ss)"
  have s: "set ?d = {n. Present n \<in> set ss}" by (rule declared_set)
  have g: "get_media_size msg = (case ?d of [] \<Rightarrow> 0 | n # ns \<Rightarrow> fold max ns n)"
    using h by (simp add: get_media_size_def)
  show "get_media_size msg =
        (if {n. Present n \<in> set ss} = {} then 0 else Max {n. Present n \<in> set ss})"
  proof (cases ?d)
    case Nil
    with s have e: "{n. Present n \<in> set ss} = {}" by simp
    from g have "get_media_size msg = 0" unfolding Nil by simp
    with e show ?thesis by simp
  next
    case (Cons n ns)
    with s have e: "{n. Present n \<in> set ss} = set (n # ns)" by simp
    from g have "get_media_size msg = fold max ns n" unfolding Cons by simp
    then show ?thesis unfolding e fold_max_Max by simp
  qed
qed (simp_all add: get_media_size_def)

theorem get_media_size_reports_witness:
  "get_media_size example_photo = 7000 \<and> get_media_size example_voice_note = 6000 \<and>
   get_media_size (example_photo\<lparr>media := Some (MessageMediaPhoto (Photo (Present [Absent])))\<rparr>)
     = 0"
proof (intro conjI)
  let ?ss = "[Present 300, Absent, Present 7000, Present (5000::int)]"
  have h: "media example_photo = Some (MessageMediaPhoto (Photo (Present ?ss))) \<and>
           sizes (Photo (Present ?ss)) = Present ?ss"
    by (simp add: example_photo_def)
  have e: "{n. Present n \<in> set ?ss} = {300, 7000, 5000}"
    by auto
  from get_media_size_reports [of example_photo] h
  have "get_media_size example_photo =
          (if {n. Present n \<in> set ?ss} = {} then 0 else Max {n. Present n \<in> set ?ss})"
    by blast
  then show "get_media_size example_photo = 7000" unfolding e by simp
next
  show "get_media_size example_voice_note = 6000"
    using get_media_size_reports [of example_voice_note] by (simp add: example_voice_note_def)
next
  let ?ss = "[Absent :: int attr]"
  let ?msg = "example_photo\<lparr>media := Some (MessageMediaPhoto (Photo (Present ?ss)))\<rparr>"
  have h: "media ?msg = Some (MessageMediaPhoto (Photo (Present ?ss))) \<and>
           sizes (Photo (Present ?ss)) = Present ?ss"
    by simp
  have e: "{n. Present n \<in> set ?ss} = {}"
    by auto
  from get_media_size_reports [of ?msg] h
  have "get_media_size ?msg =
          (if {n. Present n \<in> set ?ss} = {} then 0 else Max {n. Present n \<in> set ?ss})"
    by blast
  then show "get_media_size ?msg = 0" unfolding e by simp
qed


subsection \<open>Filter decision\<close>

text \<open>
  Claim C2. When the configured type filter is not \<open>all\<close> and differs from the
  classification \<open>c\<close> of the message's media, the filter decision is a rejection with
  the reason \<open>filtered (c)\<close>, whatever the size of the item and whatever maximum size
  is configured. With downloads enabled, the message is then counted as filtered, its
  annotation line carries that reason, and no download is attempted.
\<close>

theorem type_filter_rejects_first:
  assumes "media_filter cfg \<noteq> ''all''"
    and "get_media_type msg = Some c"
    and "c \<noteq> media_filter cfg"
  shows "apply_filters (media_filter cfg) mx (Some c) sz =
           (False, Some (''filtered ('' @ c @ '')'')) \<and>
         (download_media cfg \<longrightarrow>
            process_message cl lg cfg st msg =
              st\<lparr>message_count := message_count st + 1,
                 media_filtered := media_filtered st + 1,
                 transcript := transcript st @ text_lines msg @
                   [media_line msg (''filtered ('' @ c @ '')'')]\<rparr>)"
proof (intro conjI impI)
  have ne: "Some c \<noteq> Some (media_filter cfg)" using assms(3) by simp
  show d: "apply_filters (media_filter cfg) mx (Some c) sz =
           (False, Some (''filtered ('' @ c @ '')''))" for mx sz
    using apply_filters_type [OF assms(1) ne, of mx sz] by simp
  assume en: "download_media cfg"
  from get_media_type_media [OF assms(2)] obtain m where m: "media msg = Some m" ..
  have "apply_filters (media_filter cfg) (media_max_size cfg) (get_media_type msg)
          (get_media_size msg) = (False, Some (''filtered ('' @ c @ '')''))"
    unfolding assms(2) by (rule d)
  from process_message_rejected [OF en m this]
  show "process_message cl lg cfg st msg =
              st\<lparr>message_count := message_count st + 1,
                 media_filtered := media_filtered st + 1,
                 transcript := transcript st @ text_lines msg @
                   [media_line msg (''filtered ('' @ c @ '')'')]\<rparr>" .
qed

theorem type_filter_rejects_first_witness:
  "apply_filters ''audio'' (Some 6500) (Some ''image'') 7000 =
     (False, Some ''filtered (image)'') \<and>
   process_message example_client quiet_logging (example_config\<lparr>media_filter := ''audio''\<rparr>) initial_state
       example_photo =
     initial_state\<lparr>message_count := 1, media_filtered := 1,
       transcript :=
         [''[2024-01-02 03:04:06] <alice> look\<newline>'',
          ''[2024-01-02 03:04:06] <alice> [MEDIA: filtered (image)]\<newline>'']\<rparr>"
proof -
  let ?cfg = "example_config\<lparr>media_filter := ''audio''\<rparr>"
  have a: "media_filter ?cfg \<noteq> ''all''" by simp
  have b: "get_media_type example_photo = Some ''image''"
    by (simp add: get_media_type_def example_photo_def)
  have c: "''image'' \<noteq> media_filter ?cfg" by simp
  have en: "download_media ?cfg" by (simp add: example_config_def)
  have l: "text_lines example_photo = [''[2024-01-02 03:04:06] <alice> look\<newline>''] \<and>
           media_line example_photo ''filtered (image)'' =
             ''[2024-01-02 03:04:06] <alice> [MEDIA: filtered (image)]\<newline>''"
    by (simp add: text_lines_def media_line_def line_prefix_def format_timestamp_def
        get_sender_name_def example_photo_def example_sender_def)
  from type_filter_rejects_first [OF a b c, where mx = "Some 6500" and sz = 7000
      and cl = example_client and lg = quiet_logging and st = initial_state] en l
  show ?thesis by (simp add: initial_state_def)
qed

text \<open>
  Claim C7. For media whose classification passes the type filter (the filter is \<open>all\<close>
  or equals the classification): without a configured maximum the decision is to
  download; with a maximum \<open>mx\<close> (positive, as the command line guarantees) and a size
  above it the decision is a rejection with the reason \<open>too large (<size> bytes)\<close>,
  the size written with thousands separators; with a size up to \<open>mx\<close>, \<open>mx\<close> itself
  included, the decision is to download. With downloads enabled, a rejected message
  is counted as filtered and annotated with the reason, and an accepted one enters the
  download loop.
\<close>

theorem size_filter_decides:
  assumes "media_filter cfg = ''all'' \<or> get_media_type msg = Some (media_filter cfg)"
  shows "(media_max_size cfg = None \<longrightarrow>
            apply_filters (media_filter cfg) (media_max_size cfg) (get_media_type msg)
              (get_media_size msg) = (True, None)) \<and>
         (media_max_size cfg = Some mx \<and> 0 < mx \<and> mx < get_media_size msg \<longrightarrow>
            apply_filters (media_filter cfg) (media_max_size cfg) (get_media_type msg)
              (get_media_size msg) =
              (False, Some (''too large ('' @ format_comma (get_media_size msg) @ '' bytes)''))) \<and>
         (media_max_size cfg = Some mx \<and> get_media_size msg \<le> mx \<longrightarrow>
            apply_filters (media_filter cfg) (media_max_size cfg) (get_media_type msg)
              (get_media_size msg) = (True, None)) \<and>
         filter (\<lambda>c. c \<noteq> CHR '','') (format_comma (get_media_size msg)) =
           str_int (get_media_size msg) \<and>
         (download_media cfg \<and> media msg \<noteq> None \<and>
          media_max_size cfg = Some mx \<and> 0 < mx \<and> mx < get_media_size msg \<longrightarrow>
            process_message cl lg cfg st msg =
              st\<lparr>message_count := message_count st + 1,
                 media_filtered := media_filtered st + 1,
                 transcript := transcript st @ text_lines msg @
                   [media_line msg
                      (''too large ('' @ format_comma (get_media_size msg) @ '' bytes)'')]\<rparr>) \<and>
         (download_media cfg \<and> media msg \<noteq> None \<and>
          (media_max_size cfg = None \<or>
           media_max_size cfg = Some mx \<and> get_media_size msg \<le> mx) \<longrightarrow>
            process_message cl lg cfg st msg =
              retry_loop cl lg (os_path_join (output_dir cfg) ''media'') (format_timestamp msg)
                (get_sender_name msg) msg 0 False
                (st\<lparr>message_count := message_count st + 1,
                    transcript := transcript st @ text_lines msg\<rparr>))"
proof -
  note d = apply_filters_pass [OF assms, of "media_max_size cfg" "get_media_size msg"]
  have none: "media_max_size cfg = None \<Longrightarrow>
      apply_filters (media_filter cfg) (media_max_size cfg) (get_media_type msg)
        (get_media_size msg) = (True, None)"
    using d by simp
  have large: "media_max_size cfg = Some mx \<Longrightarrow> 0 < mx \<Longrightarrow> mx < get_media_size msg \<Longrightarrow>
      apply_filters (media_filter cfg) (media_max_size cfg) (get_media_type msg)
        (get_media_size msg) =
        (False, Some (''too large ('' @ format_comma (get_media_size msg) @ '' bytes)''))"
    using d by simp
  have small: "media_max_size cfg = Some mx \<Longrightarrow> get_media_size msg \<le> mx \<Longrightarrow>
      apply_filters (media_filter cfg) (media_max_size cfg) (get_media_type msg)
        (get_media_size msg) = (True, None)"
    using d by simp
  have rej: "download_media cfg \<and> media msg \<noteq> None \<and>
          media_max_size cfg = Some mx \<and> 0 < mx \<and> mx < get_media_size msg \<longrightarrow>
            process_message cl lg cfg st msg =
              st\<lparr>message_count := message_count st + 1,
                 media_filtered := media_filtered st + 1,
                 transcript := transcript st @ text_lines msg @
                   [media_line msg
                      (''too large ('' @ format_comma (get_media_size msg) @ '' bytes)'')]\<rparr>"
    using large process_message_rejected [where cfg = cfg and msg = msg and cl = cl and lg = lg
        and st = st
        and reason = "''too large ('' @ format_comma (get_media_size msg) @ '' bytes)''"]
    by auto
  have acc: "download_media cfg \<and> media msg \<noteq> None \<and>
          (media_max_size cfg = None \<or>
           media_max_size cfg = Some mx \<and> get_media_size msg \<le> mx) \<longrightarrow>
            process_message cl lg cfg st msg =
              retry_loop cl lg (os_path_join (output_dir cfg) ''media'') (format_timestamp msg)
                (get_sender_name msg) msg 0 False
                (st\<lparr>message_count := message_count st + 1,
                    transcript := transcript st @ text_lines msg\<rparr>)"
    using none small process_message_accepted [where cfg = cfg and msg = msg and r = None and cl = cl
        and lg = lg and st = st]
    by auto
  from none large small rej acc format_comma_digits [of "get_media_size msg"]
  show ?thesis by blast
qed

theorem size_filter_decides_witness:
  "process_message example_client quiet_logging example_config initial_state example_photo =
     initial_state\<lparr>message_count := 1, media_filtered := 1,
       transcript :=
         [''[2024-01-02 03:04:06] <alice> look\<newline>'',
          ''[2024-01-02 03:04:06] <alice> [MEDIA: too large (7,000 bytes)]\<newline>'']\<rparr> \<and>
   apply_filters ''all'' (Some 7000) (Some ''image'') 7000 = (True, None)"
proof
  have a: "media_filter example_config = ''all'' \<or>
           get_media_type example_photo = Some (media_filter example_config)"
    by (simp add: example_config_def)
  have sz: "get_media_size example_photo = 7000"
    by (simp add: get_media_size_def example_photo_def)
  have h: "download_media example_config \<and> media example_photo \<noteq> None \<and>
           media_max_size example_config = Some 6500 \<and> (0::int) < 6500 \<and>
           6500 < get_media_size example_photo"
    by (simp add: sz) (simp add: example_config_def example_photo_def)
  have f: "format_comma 7000 = ''7,000''"
    by (simp add: format_comma_def str_nat.simps digit_char_def)
  have l: "text_lines example_photo = [''[2024-01-02 03:04:06] <alice> look\<newline>''] \<and>
           media_line example_photo ''too large (7,000 bytes)'' =
             ''[2024-01-02 03:04:06] <alice> [MEDIA: too large (7,000 bytes)]\<newline>''"
    by (simp add: text_lines_def media_line_def line_prefix_def format_timestamp_def
        get_sender_name_def example_photo_def example_sender_def)
  from size_filter_decides [OF a, where mx = 6500 and cl = example_client
      and lg = quiet_logging and st = initial_state] h
  have "process_message example_client quiet_logging example_config initial_state example_photo =
          initial_state\<lparr>message_count := message_count initial_state + 1,
             media_filtered := media_filtered initial_state + 1,
             transcript := transcript initial_state @ text_lines example_photo @
               [media_line example_photo
                  (''too large ('' @ format_comma (get_media_size example_photo) @ '' bytes)'')]\<rparr>"
    by blast
  then show "process_message example_client quiet_logging example_config initial_state example_photo =
     initial_state\<lparr>message_count := 1, media_filtered := 1,
       transcript :=
         [''[2024-01-02 03:04:06] <alice> look\<newline>'',
          ''[2024-01-02 03:04:06] <alice> [MEDIA: too large (7,000 bytes)]\<newline>'']\<rparr>"
    by (simp add: sz f l) (simp add: initial_state_def)
next
  let ?cfg = "example_config\<lparr>media_max_size := Some 7000\<rparr>"
  have a: "media_filter ?cfg = ''all'' \<or>
           get_media_type example_photo = Some (media_filter ?cfg)"
    by (simp add: example_config_def)
  have t: "get_media_type example_photo = Some ''image''"
    by (simp add: get_media_type_def example_photo_def)
  have sz: "get_media_size example_photo = 7000"
    by (simp add: get_media_size_def example_photo_def)
  have h: "media_max_size ?cfg = Some 7000 \<and> get_media_size example_photo \<le> 7000"
    by (simp add: sz)
  from size_filter_decides [OF a, where mx = 7000] h
  have "apply_filters (media_filter ?cfg) (media_max_size ?cfg) (get_media_type example_photo)
              (get_media_size example_photo) = (True, None)"
    by blast
  then show "apply_filters ''all'' (Some 7000) (Some ''image'') 7000 = (True, None)"
    by (simp add: t sz example_config_def)
qed

subsection \<open>Downloads disabled\<close>

text \<open>
  Claim C6. With downloads disabled, a message that carries media adds exactly one
  annotation line, with the payload \<open>[MEDIA: not downloaded]\<close>, after its text line if
  it has one; \<open>media_skipped\<close> grows by one, and the counters of downloaded, filtered
  and failed media keep their values, as does the record of download attempts.
\<close>

theorem media_not_downloaded:
  assumes "\<not> download_media cfg" and "media msg \<noteq> None"
  shows "process_message cl lg cfg st msg =
           st\<lparr>message_count := message_count st + 1,
              media_skipped := media_skipped st + 1,
              transcript := transcript st @ text_lines msg @
                [media_line msg ''not downloaded'']\<rparr> \<and>
         media_line msg ''not downloaded'' = line_prefix msg @ ''[MEDIA: not downloaded]\<newline>'' \<and>
         media_skipped (process_message cl lg cfg st msg) = media_skipped st + 1 \<and>
         media_count (process_message cl lg cfg st msg) = media_count st \<and>
         media_filtered (process_message cl lg cfg st msg) = media_filtered st \<and>
         media_failed (process_message cl lg cfg st msg) = media_failed st \<and>
         events (process_message cl lg cfg st msg) = events st"
proof -
  from assms(2) obtain m where m: "media msg = Some m" by auto
  note e = process_message_disabled [OF assms(1) m, where cl = cl and lg = lg and st = st]
  show ?thesis unfolding e by (simp add: media_line_def)
qed

theorem media_not_downloaded_witness:
  "process_message example_client quiet_logging (example_config\<lparr>download_media := False\<rparr>) initial_state
       example_voice_note =
     initial_state\<lparr>message_count := 1, media_skipped := 1,
       transcript := [''[2024-01-02 03:04:05] <alice> [MEDIA: not downloaded]\<newline>'']\<rparr>"
proof -
  let ?cfg = "example_config\<lparr>download_media := False\<rparr>"
  have a: "\<not> download_media ?cfg" by simp
  have b: "media example_voice_note \<noteq> None" by (simp add: example_voice_note_def)
  have l: "text_lines example_voice_note = [] \<and>
           media_line example_voice_note ''not downloaded'' =
             ''[2024-01-02 03:04:05] <alice> [MEDIA: not downloaded]\<newline>''"
    by (simp add: text_lines_def media_line_def line_prefix_def format_timestamp_def
        get_sender_name_def example_voice_note_def example_sender_def)
  from media_not_downloaded [OF a b, where cl = example_client and lg = quiet_logging
      and st = initial_state] l
  show ?thesis by (simp add: initial_state_def)
qed

subsection \<open>Sender name\<close>

text \<open>
  Claim C5 says that the sender written to the transcript falls back from the handle
  to the first name and then to \<open>Unknown\<close>. The code does so for a message without a
  sender and for a sender that has no \<open>first_name\<close> attribute. It takes the first name
  whenever the sender has that attribute, also when its value is \<open>None\<close>: for a message
  from a deleted account the sender name is \<open>None\<close>, and the line is written with the
  sender \<open>None\<close> instead of \<open>Unknown\<close>.
\<close>

theorem sender_name_of_deleted_account:
  "get_sender_name deleted_account_message = None \<and>
   transcript (process_message cl lg cfg initial_state deleted_account_message) =
     [''[] <None> bye\<newline>''] \<and>
   get_sender_name (deleted_account_message\<lparr>sender := None\<rparr>) = Some ''Unknown'' \<and>
   get_sender_name (deleted_account_message
      \<lparr>sender := Some \<lparr>username = Present None, first_name = Absent\<rparr>\<rparr>) = Some ''Unknown''"
  by (simp add: process_message_no_media deleted_account_message_def get_sender_name_def
      text_lines_def line_prefix_def format_timestamp_def initial_state_def)

subsection \<open>Retry exhaustion\<close>



subsection \<open>Line prefix\<close>

text \<open>
  When the log statements complete, the lines written for a message are its text line,
  when it has text, and one annotation line, when it has media, and both begin with the
  same prefix \<open>[<timestamp>] <<sender>> \<close>.
\<close>

lemma media_line_has_prefix_when_logged:
  assumes "\<forall>k. print_tick lg msg k = None \<and> write_media_line lg msg k = None"
  shows "\<exists>payload.
     transcript (process_message cl lg cfg st msg) =
       transcript st @
       (if message_text msg \<noteq> [] then [line_prefix msg @ message_text msg @ ''\<newline>''] else []) @
       (if media msg \<noteq> None then [line_prefix msg @ ''[MEDIA: '' @ payload @ '']\<newline>'']
        else [])"
proof -
  from process_message_shape [OF assms, where cl = cl and cfg = cfg and st = st]
  obtain payload evs a b c d where
    "process_message cl lg cfg st msg =
       st\<lparr>message_count := message_count st + 1,
          media_count := media_count st + a,
          media_filtered := media_filtered st + b,
          media_failed := media_failed st + c,
          media_skipped := media_skipped st + d,
          transcript := transcript st @ text_lines msg @
            (if media msg = None then [] else [media_line msg payload]),
          events := events st @ evs\<rparr>"
    by blast
  then have "transcript (process_message cl lg cfg st msg) =
       transcript st @
       (if message_text msg \<noteq> [] then [line_prefix msg @ message_text msg @ ''\<newline>''] else []) @
       (if media msg \<noteq> None then [line_prefix msg @ ''[MEDIA: '' @ payload @ '']\<newline>'']
        else [])"
    by (simp add: text_lines_def media_line_def)
  then show ?thesis by blast
qed

text \<open>
  Claim C10 says that every media annotation line begins with the prefix of the text
  line, so that a message with media and no text still yields a line that carries its
  timestamp and sender. The annotation line of a download is written inside the \<open>try\<close>
  block, after the download has been counted and the tick mark printed. When that
  \<open>print\<close> raises after the first attempt has saved the file, the handler counts a
  retry and waits, the loop ends because \<open>download_success\<close> is set, and no line at
  all is written for the message, although its download is counted.
\<close>

theorem media_only_message_without_line:
  "message_text example_video = [] \<and> media example_video \<noteq> None \<and>
   process_message scenario_client ascii_console example_config initial_state example_video =
     initial_state\<lparr>message_count := 1, media_count := 1,
       events := [DownloadMedia 9 ''backup/media/msg_9'', Sleep 3]\<rparr> \<and>
   transcript
     (process_message scenario_client ascii_console example_config initial_state example_video)
     = []"
proof -
  have p: "process_message scenario_client ascii_console example_config initial_state
             example_video =
           initial_state\<lparr>message_count := 1, media_count := 1,
             events := [DownloadMedia 9 ''backup/media/msg_9'', Sleep 3]\<rparr>"
    by (simp add: process_message_def Let_def example_video_def example_config_def
        scenario_client_def ascii_console_def initial_state_def get_sender_name_def
        format_timestamp_def get_media_type_def get_media_size_def check_mime_def lower_def
        lower_char_def startswith_def apply_filters_def retry_loop.simps try_download_def
        max_retries_def media_filename_of_def os_path_join_def str_int_def str_nat.simps
        digit_char_def emit_def f_write_def)
  show ?thesis unfolding p by (simp add: example_video_def initial_state_def)
qed

subsection \<open>Counter conservation\<close>

text \<open>
  When the log statements complete for every message, one message with media adds one
  to exactly one of the four media counters, and the counters of a run add up to the
  number of messages that carry media.
\<close>

lemma process_message_counters:
  assumes logged: "\<forall>k. print_tick lg msg k = None \<and> write_media_line lg msg k = None"
  shows "message_count (process_message cl lg cfg st msg) = message_count st + 1 \<and>
   (if media msg = None then
      media_count (process_message cl lg cfg st msg) = media_count st \<and>
      media_filtered (process_message cl lg cfg st msg) = media_filtered st \<and>
      media_failed (process_message cl lg cfg st msg) = media_failed st \<and>
      media_skipped (process_message cl lg cfg st msg) = media_skipped st
    else if download_media cfg then
      media_skipped (process_message cl lg cfg st msg) = media_skipped st \<and>
      (\<exists>a b c. a + b + c = 1 \<and>
         media_count (process_message cl lg cfg st msg) = media_count st + a \<and>
         media_filtered (process_message cl lg cfg st msg) = media_filtered st + b \<and>
         media_failed (process_message cl lg cfg st msg) = media_failed st + c)
    else
      media_count (process_message cl lg cfg st msg) = media_count st \<and>
      media_filtered (process_message cl lg cfg st msg) = media_filtered st \<and>
      media_failed (process_message cl lg cfg st msg) = media_failed st \<and>
      media_skipped (process_message cl lg cfg st msg) = media_skipped st + 1)"
proof -
  from process_message_shape [OF logged, where cl = cl and cfg = cfg and st = st]
  obtain payload evs a b c d where
    e: "process_message cl lg cfg st msg =
       st\<lparr>message_count := message_count st + 1,
          media_count := media_count st + a,
          media_filtered := media_filtered st + b,
          media_failed := media_failed st + c,
          media_skipped := media_skipped st + d,
          transcript := transcript st @ text_lines msg @
            (if media msg = None then [] else [media_line msg payload]),
          events := events st @ evs\<rparr>"
    and k: "if media msg = None then a = 0 \<and> b = 0 \<and> c = 0 \<and> d = 0
      else if download_media cfg then d = 0 \<and> a + b + c = 1
      else a = 0 \<and> b = 0 \<and> c = 0 \<and> d = 1"
    by blast
  show ?thesis
  proof (cases "media msg = None")
    case True
    with k show ?thesis unfolding e by simp
  next
    case False
    show ?thesis
    proof (cases "download_media cfg")
      case True
      with False k have "d = 0" and "a + b + c = 1" by simp_all
      with False True show ?thesis unfolding e by auto
    next
      case no: False
      with False k show ?thesis unfolding e by simp
    qed
  qed
qed

lemma process_messages_counters:
  assumes logged: "\<forall>msg k. print_tick lg msg k = None \<and> write_media_line lg msg k = None"
  shows "message_count (process_messages cl lg cfg st msgs) = message_count st + length msgs \<and>
   (if download_media cfg then
      media_count (process_messages cl lg cfg st msgs)
        + media_filtered (process_messages cl lg cfg st msgs)
        + media_failed (process_messages cl lg cfg st msgs) =
      media_count st + media_filtered st + media_failed st
        + length (filter (\<lambda>m. media m \<noteq> None) msgs) \<and>
      media_skipped (process_messages cl lg cfg st msgs) = media_skipped st
    else
      media_skipped (process_messages cl lg cfg st msgs) =
        media_skipped st + length (filter (\<lambda>m. media m \<noteq> None) msgs) \<and>
      media_count (process_messages cl lg cfg st msgs) = media_count st \<and>
      media_filtered (process_messages cl lg cfg st msgs) = media_filtered st \<and>
      media_failed (process_messages cl lg cfg st msgs) = media_failed st)"
proof (induction msgs arbitrary: st)
  case Nil
  show ?case by simp
next
  case (Cons msg rest)
  note ih = Cons.IH [of "process_message cl lg cfg st msg"]
  from logged have "\<forall>k. print_tick lg msg k = None \<and> write_media_line lg msg k = None"
    by simp
  note one = process_message_counters [OF this, where cl = cl and cfg = cfg and st = st]
  show ?case
  proof (cases "download_media cfg")
    case True
    show ?thesis
    proof (cases "media msg = None")
      case none: True
      with True ih one show ?thesis by simp
    next
      case some: False
      with True one obtain a b c where "a + b + c = 1"
        and "media_count (process_message cl lg cfg st msg) = media_count st + a"
        and "media_filtered (process_message cl lg cfg st msg) = media_filtered st + b"
        and "media_failed (process_message cl lg cfg st msg) = media_failed st + c"
        and "media_skipped (process_message cl lg cfg st msg) = media_skipped st"
        and "message_count (process_message cl lg cfg st msg) = message_count st + 1"
        by auto
      with True some ih show ?thesis by simp
    qed
  next
    case False
    with ih one show ?thesis by (cases "media msg = None") simp_all
  qed
qed

lemma counters_conserved_when_logged:
  assumes "\<forall>msg k. print_tick lg msg k = None \<and> write_media_line lg msg k = None"
    and "get_entity cl (chat_username cfg) = Some chat"
  shows "\<exists>st. download_chat cl lg cfg = Some st \<and>
            message_count st = length (iter_messages cl chat) \<and>
            (if download_media cfg then
               media_count st + media_filtered st + media_failed st =
                 length (filter (\<lambda>m. media m \<noteq> None) (iter_messages cl chat)) \<and>
               media_skipped st = 0
             else
               media_skipped st =
                 length (filter (\<lambda>m. media m \<noteq> None) (iter_messages cl chat)) \<and>
               media_count st = 0 \<and> media_filtered st = 0 \<and> media_failed st = 0)"
proof -
  let ?st = "process_messages cl lg cfg initial_state (iter_messages cl chat)"
  have d: "download_chat cl lg cfg = Some ?st"
    using assms(2) by (simp add: download_chat_def)
  from process_messages_counters [OF assms(1), where cl = cl and cfg = cfg
      and st = initial_state and msgs = "iter_messages cl chat"]
  have "message_count ?st = length (iter_messages cl chat) \<and>
            (if download_media cfg then
               media_count ?st + media_filtered ?st + media_failed ?st =
                 length (filter (\<lambda>m. media m \<noteq> None) (iter_messages cl chat)) \<and>
               media_skipped ?st = 0
             else
               media_skipped ?st =
                 length (filter (\<lambda>m. media m \<noteq> None) (iter_messages cl chat)) \<and>
               media_count ?st = 0 \<and> media_filtered ?st = 0 \<and> media_failed ?st = 0)"
    by (simp add: initial_state_def split: if_splits)
  with d show ?thesis by blast
qed

text \<open>
  Claim C1 says that the counters of downloaded, filtered and failed media add up to
  the number of messages that carry media, each such message adding to exactly one
  counter. A download is counted inside the \<open>try\<close> block before the tick mark is
  printed and the line is written. When two attempts fail, the third saves the file and
  the \<open>print\<close> of the tick mark raises, the handler sees the third caught exception
  and counts a failure too: the one message with media of the run is counted as
  downloaded and as failed, and the three counters add up to 2.
\<close>

theorem media_counted_twice:
  "length (filter (\<lambda>m. media m \<noteq> None) (iter_messages slow_client 1)) = 1 \<and>
   download_chat slow_client ascii_console example_config =
     Some (initial_state\<lparr>message_count := 1, media_count := 1, media_failed := 1,
       transcript := [''[] <Unknown> [MEDIA: Download failed - codec cannot encode]\<newline>''],
       events :=
         [DownloadMedia 9 ''backup/media/msg_9'', Sleep 3,
          DownloadMedia 9 ''backup/media/msg_9'', Sleep 3,
          DownloadMedia 9 ''backup/media/msg_9'']\<rparr>)"
  by (simp add: download_chat_def process_message_def Let_def example_video_def
      example_config_def slow_client_def ascii_console_def initial_state_def
      get_sender_name_def format_timestamp_def get_media_type_def get_media_size_def
      check_mime_def lower_def lower_char_def startswith_def apply_filters_def
      retry_loop.simps try_download_def max_retries_def media_filename_of_def
      os_path_join_def str_int_def str_nat.simps digit_char_def emit_def f_write_def)

subsection \<open>The media filter option\<close>

text \<open>
  Claim C9. The value given to \<open>--media-filter\<close> is lowercased first. When its lowercase
  form is one of image, audio, video, other, all, parsing goes on with that lowercase
  form as the filter; otherwise the program exits with code 1. So a command line with
  this single option either runs the export with the lowercase value or exits with 1.
\<close>

theorem media_filter_lowercased:
  "parse_options py_int (''--media-filter'' # v # rest) cfg =
     (if lower v \<in> {''image'', ''audio'', ''video'', ''other'', ''all''}
      then parse_options py_int rest (cfg\<lparr>media_filter := lower v\<rparr>)
      else Exit 1) \<and>
   (''--help'' \<notin> set [prog, a, h, c, v] \<and> ''-h'' \<notin> set [prog, a, h, c, v] \<and>
    py_int a = Some n \<longrightarrow>
      main py_int [prog, a, h, c, ''--media-filter'', v] =
        (if lower v \<in> {''image'', ''audio'', ''video'', ''other'', ''all''}
         then Run \<lparr>api_id = n, api_hash = h, chat_username = c, output_dir = ''backup'',
                   download_media = False, media_filter = lower v, media_max_size = None\<rparr>
         else Exit 1))"
proof
  show step: "parse_options py_int (''--media-filter'' # v # rest) cfg =
     (if lower v \<in> {''image'', ''audio'', ''video'', ''other'', ''all''}
      then parse_options py_int rest (cfg\<lparr>media_filter := lower v\<rparr>)
      else Exit 1)" for rest cfg
    by (simp add: startswith_def valid_options_def Let_def)
  show "''--help'' \<notin> set [prog, a, h, c, v] \<and> ''-h'' \<notin> set [prog, a, h, c, v] \<and>
    py_int a = Some n \<longrightarrow>
      main py_int [prog, a, h, c, ''--media-filter'', v] =
        (if lower v \<in> {''image'', ''audio'', ''video'', ''other'', ''all''}
         then Run \<lparr>api_id = n, api_hash = h, chat_username = c, output_dir = ''backup'',
                   download_media = False, media_filter = lower v, media_max_size = None\<rparr>
         else Exit 1)"
  proof
    assume h: "''--help'' \<notin> set [prog, a, h, c, v] \<and> ''-h'' \<notin> set [prog, a, h, c, v] \<and>
      py_int a = Some n"
    then have "main py_int [prog, a, h, c, ''--media-filter'', v] =
        parse_options py_int [''--media-filter'', v]
          \<lparr>api_id = n, api_hash = h, chat_username = c, output_dir = ''backup'',
            download_media = False, media_filter = ''all'', media_max_size = None\<rparr>"
      by (simp add: main_def)
    then show "main py_int [prog, a, h, c, ''--media-filter'', v] =
        (if lower v \<in> {''image'', ''audio'', ''video'', ''other'', ''all''}
         then Run \<lparr>api_id = n, api_hash = h, chat_username = c, output_dir = ''backup'',
                   download_media = False, media_filter = lower v, media_max_size = None\<rparr>
         else Exit 1)"
      unfolding step by simp
  qed
qed

theorem media_filter_lowercased_witness:
  "main example_int [''telegram_backup.py'', ''12345'', ''abcdef'', ''somechat'',
      ''--media-filter'', ''IMAGE''] =
     Run \<lparr>api_id = 12345, api_hash = ''abcdef'', chat_username = ''somechat'',
          output_dir = ''backup'', download_media = False, media_filter = ''image'',
          media_max_size = None\<rparr> \<and>
   main example_int [''telegram_backup.py'', ''12345'', ''abcdef'', ''somechat'',
      ''--media-filter'', ''image''] =
     main example_int [''telegram_backup.py'', ''12345'', ''abcdef'', ''somechat'',
      ''--media-filter'', ''IMAGE''] \<and>
   main example_int [''telegram_backup.py'', ''12345'', ''abcdef'', ''somechat'',
      ''--media-filter'', ''Images''] = Exit 1"
proof -
  have l: "lower ''IMAGE'' = ''image'' \<and> lower ''image'' = ''image'' \<and>
           lower ''Images'' = ''images''"
    by (simp add: lower_def lower_char_def)
  have i: "example_int ''12345'' = Some 12345" by (simp add: example_int_def)
  have h: "''--help'' \<notin> set [''telegram_backup.py'', ''12345'', ''abcdef'', ''somechat'', v] \<and>
           ''-h'' \<notin> set [''telegram_backup.py'', ''12345'', ''abcdef'', ''somechat'', v] \<and>
           example_int ''12345'' = Some 12345"
    if "v \<in> {''IMAGE'', ''image'', ''Images''}" for v
    using that i by auto
  from media_filter_lowercased [of example_int "''IMAGE''" "[]" example_config
      "''telegram_backup.py''" "''12345''" "''abcdef''" "''somechat''" 12345, THEN conjunct2]
    media_filter_lowercased [of example_int "''image''" "[]" example_config
      "''telegram_backup.py''" "''12345''" "''abcdef''" "''somechat''" 12345, THEN conjunct2]
    media_filter_lowercased [of example_int "''Images''" "[]" example_config
      "''telegram_backup.py''" "''12345''" "''abcdef''" "''somechat''" 12345, THEN conjunct2]
    h [of "''IMAGE''"] h [of "''image''"] h [of "''Images''"]
  show ?thesis unfolding l [THEN conjunct1] l [THEN conjunct2, THEN conjunct1]
      l [THEN conjunct2, THEN conjunct2]
    by simp
qed

subsection \<open>The scenarios of the specification, run on the model\<close>

lemma scenario_max_size:
  "download_chat scenario_client quiet_logging scenario_config =
     Some \<lparr>message_count = 3, media_count = 1, media_skipped = 0, media_filtered = 1,
           media_failed = 0,
           transcript =
             [''[2024-05-01 10:00:00] <alice> hello\<newline>'',
              ''[2024-05-01 10:00:01] <alice> [MEDIA: msg_2.jpg]\<newline>'',
              ''[2024-05-01 10:00:02] <alice> [MEDIA: too large (10,000,000 bytes)]\<newline>''],
           events = [DownloadMedia 2 ''backup/media/msg_2.jpg'']\<rparr>"
  by (simp add: download_chat_def scenario_client_def scenario_config_def scenario_messages_def
      initial_state_def process_message_def Let_def get_sender_name_def example_sender_def
      format_timestamp_def f_write_def emit_def get_media_type_def get_media_size_def
      check_mime_def lower_def lower_char_def startswith_def apply_filters_def
      format_comma_def str_nat.simps digit_char_def str_int_def retry_loop.simps
      try_download_def quiet_logging_def
      max_retries_def media_filename_of_def os_path_join_def)

lemma scenario_audio_only:
  "download_chat scenario_client quiet_logging (scenario_config\<lparr>media_filter := ''audio''\<rparr>) =
     Some \<lparr>message_count = 3, media_count = 0, media_skipped = 0, media_filtered = 2,
           media_failed = 0,
           transcript =
             [''[2024-05-01 10:00:00] <alice> hello\<newline>'',
              ''[2024-05-01 10:00:01] <alice> [MEDIA: filtered (image)]\<newline>'',
              ''[2024-05-01 10:00:02] <alice> [MEDIA: filtered (video)]\<newline>''],
           events = []\<rparr>"
  by (simp add: download_chat_def scenario_client_def scenario_config_def scenario_messages_def
      initial_state_def process_message_def Let_def get_sender_name_def example_sender_def
      format_timestamp_def f_write_def emit_def get_media_type_def get_media_size_def
      check_mime_def lower_def lower_char_def startswith_def apply_filters_def
      quiet_logging_def)

end
